theory Spec2Isabelle
  imports Complex_Main "HOL-Library.Word"
begin

unbundle bit_operations_syntax

section \<open>Machine types and protocol constants\<close>

text \<open>
  The sketches run on a 32-bit ESP32: \<open>uint8_t\<close>, \<open>uint32_t\<close> and
  \<open>uint64_t\<close> are words of that width, \<open>int\<close> has 32 bits, and unsigned arithmetic
  wraps around.  The constants are the \<open>#define\<close>s of
  \<open>range_rx_multi_anchor.ino\<close> (the anchor, or responder) and of
  \<open>range_tx_tag_esp32_web.ino\<close> (the tag, or initiator).
\<close>

type_synonym u8 = "8 word"
type_synonym u32 = "32 word"
type_synonym u64 = "64 word"

definition TX_ANT_DLY :: u64 where "TX_ANT_DLY = 16385"
definition ALL_MSG_COMMON_LEN :: nat where "ALL_MSG_COMMON_LEN = 10"
definition ALL_MSG_SN_IDX :: nat where "ALL_MSG_SN_IDX = 2"
definition RESP_MSG_POLL_RX_TS_IDX :: nat where "RESP_MSG_POLL_RX_TS_IDX = 10"
definition RESP_MSG_RESP_TX_TS_IDX :: nat where "RESP_MSG_RESP_TX_TS_IDX = 14"
definition RESP_MSG_TS_LEN :: nat where "RESP_MSG_TS_LEN = 4"

definition BASE_REPLY_DLY_US :: u32 where "BASE_REPLY_DLY_US = 600"
definition SLOT_DELAY_US :: u32 where "SLOT_DELAY_US = 2000"
definition ID_MIN :: int where "ID_MIN = 1"
definition ID_MAX :: int where "ID_MAX = 20"

definition MAX_ANCHORS :: nat where "MAX_ANCHORS = 20"

section \<open>Slot scheduler (anchor)\<close>

text \<open>
  \<^verbatim>\<open>uint32_t total_uus = (uint32_t)(BASE_REPLY_DLY_US + (uint32_t)(anchor_id - 1) * SLOT_DELAY_US);\<close>

  \<open>anchor_id\<close> is a \<open>uint8_t\<close>; \<open>anchor_id - 1\<close> is computed in \<open>int\<close> and cast to
  \<open>uint32_t\<close>, so identity 0 gives \<open>0xFFFFFFFF\<close>, which is what \<open>ucast anchor_id - 1\<close>
  is on 32-bit words.  The code has no function of its own for this expression; the
  model names it after the spec's \<open>slot_delay_us\<close>.
\<close>

definition slot_delay_us :: "u8 \<Rightarrow> u32" where
  "slot_delay_us anchor_id = BASE_REPLY_DLY_US + (ucast anchor_id - 1) * SLOT_DELAY_US"

text \<open>A valid identity, as \<open>load_id_or_fallback\<close> and \<open>handle_serial_setid\<close> test it.\<close>

definition id_in_range :: "int \<Rightarrow> bool" where
  "id_in_range v \<longleftrightarrow> v \<ge> ID_MIN \<and> v \<le> ID_MAX"


section \<open>Frame codec\<close>

text \<open>
  The frames of both sketches.  \<open>'W' 'A' 'V' 'E'\<close> are the bytes 0x57 0x41 0x56 0x45.
  \<open>rx_poll_msg\<close> is the anchor's expected poll (the tag's \<open>tx_poll_msg\<close> has the same
  bytes), \<open>rx_resp_msg\<close> is the tag's expected response, and \<open>tx_resp_msg_init\<close> is
  the initialiser of the anchor's static \<open>tx_resp_msg\<close>, which the anchor overwrites
  in place at every reply.
\<close>

definition rx_poll_msg :: "u8 list" where
  "rx_poll_msg = [0x41, 0x88, 0, 0xCA, 0xDE, 0x57, 0x41, 0x56, 0x45, 0xE0, 0, 0]"

definition rx_resp_msg :: "u8 list" where
  "rx_resp_msg = [0x41, 0x88, 0, 0xCA, 0xDE, 0x56, 0x45, 0x57, 0x41, 0xE1,
                  0, 0, 0, 0, 0, 0, 0, 0, 0, 0]"

definition tx_resp_msg_init :: "u8 list" where
  "tx_resp_msg_init = [0x41, 0x88, 0, 0xCA, 0xDE, 0x56, 0x45, 0x57, 0x41, 0xE1,
                       0, 0, 0, 0, 0, 0, 0, 0, 0, 0]"

text \<open>\<open>memcmp(a, b, n) == 0\<close> on two arrays of at least \<open>n\<close> bytes.\<close>

definition memcmp_eq :: "u8 list \<Rightarrow> u8 list \<Rightarrow> nat \<Rightarrow> bool" where
  "memcmp_eq a b n \<longleftrightarrow> take n a = take n b"

text \<open>
  \<open>dwt_readrxdata(buffer, length, 0)\<close> copies the first \<open>length\<close> bytes of the received
  frame over the start of \<open>buffer\<close>; the bytes of \<open>buffer\<close> behind them stay as an
  earlier frame left them.  Both sketches call it with a length that is at most the
  frame's length and at most the buffer's size.
\<close>

definition dwt_readrxdata :: "u8 list \<Rightarrow> u8 list \<Rightarrow> nat \<Rightarrow> u8 list" where
  "dwt_readrxdata buffer frame len = take len frame @ drop len buffer"

text \<open>
  \<open>resp_msg_get_ts\<close> of \<open>range2/range_tx.ino\<close>; the pointer \<open>p\<close> is the buffer and the
  index of its first byte:
  \<^verbatim>\<open>*ts = ((uint32_t)p[0]) | ((uint32_t)p[1] << 8) | ((uint32_t)p[2] << 16) | ((uint32_t)p[3] << 24);\<close>
\<close>

definition resp_msg_get_ts :: "u8 list \<Rightarrow> nat \<Rightarrow> u32" where
  "resp_msg_get_ts buf idx =
     ucast (buf ! idx) OR push_bit 8 (ucast (buf ! (idx + 1)))
       OR push_bit 16 (ucast (buf ! (idx + 2))) OR push_bit 24 (ucast (buf ! (idx + 3)))"

text \<open>
  Modelled from the spec: \<open>resp_msg_set_ts\<close> is a helper of the DW3000 library, which is
  not among the sources (the anchor only quotes its prototype
  \<open>void resp_msg_set_ts(uint8_t *ts_field, uint64_t ts)\<close>).  The spec has the response
  carry each timestamp "as 4-byte little-endian integers at fixed offsets": byte \<open>k\<close>
  of the field holds bits \<open>8k .. 8k+7\<close> of the timestamp, for \<open>k < RESP_MSG_TS_LEN\<close>.
\<close>

definition resp_msg_set_ts :: "u8 list \<Rightarrow> nat \<Rightarrow> u64 \<Rightarrow> u8 list" where
  "resp_msg_set_ts buf idx ts =
     buf[idx := ucast ts, idx + 1 := ucast (drop_bit 8 ts),
         idx + 2 := ucast (drop_bit 16 ts), idx + 3 := ucast (drop_bit 24 ts)]"

section \<open>Text output\<close>

text \<open>
  \<open>%u\<close> of \<open>printf\<close> and \<open>Serial.print\<close> of an unsigned integer: the decimal digits,
  most significant first, no leading zero.
\<close>

definition digit_char :: "nat \<Rightarrow> char" where
  "digit_char d = ''0123456789'' ! d"

fun dec :: "nat \<Rightarrow> string" where
  "dec n = (if n < 10 then [digit_char n] else dec (n div 10) @ [digit_char (n mod 10)])"

declare dec.simps [simp del]

definition CRLF :: string where
  "CRLF = [CHR 0x0D, CHR 0x0A]"

section \<open>Time units\<close>

text \<open>
  \<open>DWT_TIME_UNITS\<close> is \<open>1.0/(499.2e6*128.0)\<close> seconds and \<open>SPEED_OF_LIGHT\<close> is
  \<open>299702547.0\<close> m/s.  The sketches compute with C \<open>float\<close> and \<open>double\<close>; the model
  computes with exact reals (every conversion and operation is taken as exact), so it
  says nothing about rounding.
\<close>

definition DWT_TIME_UNITS :: real where
  "DWT_TIME_UNITS = 1 / (499200000 * 128)"

definition SPEED_OF_LIGHT :: real where
  "SPEED_OF_LIGHT = 299702547"

text \<open>
  \<^verbatim>\<open>return (uint64_t)((double)us * 1e-6 / DWT_TIME_UNITS);\<close>
  The model takes the whole part of the exact quotient.  The sketch rounds each
  \<open>double\<close> operation before it truncates, so its value can be one tick lower (for
  600 microseconds it is 38338559 where the exact quotient is 38338560).  No theorem
  below states or uses the value of \<open>us_to_dwt\<close>.
\<close>

definition us_to_dwt :: "u32 \<Rightarrow> u64" where
  "us_to_dwt us = word_of_int \<lfloor>real (unat us) * (1 / 1000000) / DWT_TIME_UNITS\<rfloor>"

section \<open>Frame check sequence\<close>

text \<open>
  Both sketches classify a frame only after the radio has set \<open>SYS_STATUS_RXFCG\<close>
  (frame check good), and \<open>frame_len\<close> counts the two bytes of the frame check sequence
  (the sketches \<open>k4w_ble_scanner.ino\<close> and \<open>k4w_ble_discovery.ino\<close> subtract
  \<open>FCS_LEN\<close> from it).  The check is the radio's, not code of the sketches: the last
  two bytes of a good frame are the 16-bit CRC of IEEE 802.15.4 over the bytes before
  them (polynomial \<open>x^16 + x^12 + x^5 + 1\<close>, bits taken least significant first,
  initial value 0), low byte first.  \<open>crc_step\<close> takes in one bit, \<open>crc_byte\<close> one
  byte, and \<open>fcs_ok\<close> is what the radio requires of a frame before it reports it good.
\<close>

definition crc_step :: "16 word \<Rightarrow> 16 word" where
  "crc_step c = (if bit c 0 then drop_bit 1 c XOR 0x8408 else drop_bit 1 c)"

definition crc_step8 :: "16 word \<Rightarrow> 16 word" where
  "crc_step8 c =
     crc_step (crc_step (crc_step (crc_step (crc_step (crc_step (crc_step (crc_step c)))))))"

definition crc_byte :: "16 word \<Rightarrow> u8 \<Rightarrow> 16 word" where
  "crc_byte c b = crc_step8 (c XOR ucast b)"

definition fcs16 :: "u8 list \<Rightarrow> 16 word" where
  "fcs16 bs = foldl crc_byte 0 bs"



section \<open>Anchor (responder): \<open>range_rx_multi_anchor.ino\<close>\<close>

text \<open>
  The globals of the sketch, the EEPROM byte at \<open>EEPROM_ADDR_ID\<close>, and what the sketch
  does to the outside: the characters written to \<open>Serial\<close>, the driver calls that
  drive the radio in the order they are made (\<open>dwt_rxenable\<close>,
  \<open>dwt_setdelayedtrxtime\<close>, \<open>dwt_writetxdata\<close>, \<open>dwt_starttx\<close>; reads and clears of
  \<open>SYS_STATUS\<close> and \<open>dwt_writetxfctrl\<close> are left out), the frames whose transmission
  the radio confirmed (the branch after \<open>ret == DWT_SUCCESS\<close>, where the sketch waits for
  \<open>SYS_STATUS_TXFRS\<close>), and whether \<open>ESP.restart()\<close> was called.  The two busy waits
  on \<open>SYS_STATUS\<close> are not loops of the model: what the radio reports when a wait ends
  is an input of the pass.
\<close>

datatype radio_call =
    Rxenable
  | Setdelayedtrxtime u32
  | Writetxdata "u8 list"
  | Starttx_delayed

record anchor_state =
  anchor_rx_buffer :: "u8 list"
  tx_resp_msg :: "u8 list"
  anchor_frame_seq_nb :: u8
  poll_rx_ts :: u64
  resp_tx_ts :: u64
  anchor_id :: u8
  eeprom_id :: u8
  anchor_serial :: string
  radio_calls :: "radio_call list"
  tx_confirmed :: "u8 list list"
  restarted :: bool

definition DEFAULT_ANCHOR_ID :: u8 where "DEFAULT_ANCHOR_ID = 255"

text \<open>The static initialisers; \<open>e\<close> is the byte the EEPROM holds at power-up.\<close>

definition anchor_power_up :: "u8 \<Rightarrow> anchor_state" where
  "anchor_power_up e =
     \<lparr>anchor_rx_buffer = replicate 20 0, tx_resp_msg = tx_resp_msg_init,
      anchor_frame_seq_nb = 0, poll_rx_ts = 0, resp_tx_ts = 0,
      anchor_id = DEFAULT_ANCHOR_ID, eeprom_id = e, anchor_serial = [],
      radio_calls = [], tx_confirmed = [], restarted = False\<rparr>"

text \<open>
  \<^verbatim>\<open>EEPROM.write(EEPROM_ADDR_ID, id); EEPROM.commit();
Serial.printf("[ANCHOR] Saved ID=%u (valid %d..%d). Rebooting...\r\n", id, ID_MIN, ID_MAX);
delay(200); ESP.restart();\<close>
\<close>

definition save_id_and_reboot :: "anchor_state \<Rightarrow> u8 \<Rightarrow> anchor_state" where
  "save_id_and_reboot st ident =
     st\<lparr>eeprom_id := ident,
        anchor_serial := anchor_serial st @ ''[ANCHOR] Saved ID='' @ dec (unat ident)
          @ '' (valid '' @ dec (nat ID_MIN) @ ''..'' @ dec (nat ID_MAX) @ ''). Rebooting...'' @ CRLF,
        restarted := True\<rparr>"

text \<open>
  \<^verbatim>\<open>uint8_t id = EEPROM.read(EEPROM_ADDR_ID);
if (id >= ID_MIN && id <= ID_MAX) return id;
return 1;\<close>
\<close>

definition load_id_or_fallback :: "u8 \<Rightarrow> u8" where
  "load_id_or_fallback e = (if uint e \<ge> ID_MIN \<and> uint e \<le> ID_MAX then e else 1)"

text \<open>
  The methods of Arduino's \<open>String\<close> that \<open>handle_serial_setid\<close> uses, on character
  lists: \<open>startsWith\<close>, \<open>indexOf\<close> (the first position of the character, or \<open>-1\<close>) and
  \<open>substring\<close> from a position to the end.  \<open>toInt\<close> is left to the platform: it is a
  parameter of the model.
\<close>

definition startsWith :: "string \<Rightarrow> string \<Rightarrow> bool" where
  "startsWith s p \<longleftrightarrow> take (length p) s = p"

fun indexOf_from :: "string \<Rightarrow> char \<Rightarrow> int \<Rightarrow> int" where
  "indexOf_from [] c i = - 1"
| "indexOf_from (x # xs) c i = (if x = c then i else indexOf_from xs c (i + 1))"

definition indexOf :: "string \<Rightarrow> char \<Rightarrow> int" where
  "indexOf s c = indexOf_from s c 0"

definition substring :: "string \<Rightarrow> int \<Rightarrow> string" where
  "substring s i = drop (nat i) s"

text \<open>
  \<open>handle_serial_setid\<close>.  \<open>line\<close> is \<open>None\<close> when \<open>Serial.available()\<close> is false, and
  otherwise the line read by \<open>readStringUntil('\n')\<close>, trimmed.
  \<^verbatim>\<open>if (s.startsWith("SETID")) {
  int sp = s.indexOf(' ');
  if (sp > 0) {
    int v = s.substring(sp+1).toInt();
    if (v >= ID_MIN && v <= ID_MAX) { save_id_and_reboot((uint8_t)v); }
    else { Serial.printf("[ANCHOR] Invalid ID. Use %d..%d\r\n", ID_MIN, ID_MAX); }
  }
}\<close>
\<close>

definition handle_serial_setid ::
    "(string \<Rightarrow> int) \<Rightarrow> anchor_state \<Rightarrow> string option \<Rightarrow> anchor_state" where
  "handle_serial_setid toInt st line =
     (case line of
        None \<Rightarrow> st
      | Some s \<Rightarrow>
          if startsWith s ''SETID'' then
            (let sp = indexOf s CHR '' '' in
             if sp > 0 then
               (let v = toInt (substring s (sp + 1)) in
                if v \<ge> ID_MIN \<and> v \<le> ID_MAX then save_id_and_reboot st (word_of_int v)
                else st\<lparr>anchor_serial := anchor_serial st @ ''[ANCHOR] Invalid ID. Use ''
                          @ dec (nat ID_MIN) @ ''..'' @ dec (nat ID_MAX) @ CRLF\<rparr>)
             else st)
          else st)"

text \<open>
  The part of \<open>setup\<close> that decides the identity: the boot window for \<open>SETID\<close>, then
  \<open>anchor_id = load_id_or_fallback()\<close> and the line that reports it.  \<open>ESP.restart()\<close>
  does not return, so nothing follows a restart.
\<close>

definition anchor_setup ::
    "(string \<Rightarrow> int) \<Rightarrow> anchor_state \<Rightarrow> string option \<Rightarrow> anchor_state" where
  "anchor_setup toInt st line =
     (let st1 = handle_serial_setid toInt st line in
      if restarted st1 then st1
      else
        (let ident = load_id_or_fallback (eeprom_id st1) in
         st1\<lparr>anchor_id := ident,
             anchor_serial := anchor_serial st1 @ ''[ANCHOR] Using ID='' @ dec (unat ident)
               @ '' (valid '' @ dec (nat ID_MIN) @ ''..'' @ dec (nat ID_MAX)
               @ ''). Type 'SETID <n>' to change (auto-reboot).'' @ CRLF\<rparr>))"

text \<open>
  What one pass of \<open>loop\<close> gets from outside: the serial line, whether the wait on
  \<open>SYS_STATUS\<close> ended with a good frame (\<open>RXFCG\<close>) or with a receive error, the frame
  (its length is \<open>frame_len\<close>), the receive timestamp, and whether
  \<open>dwt_starttx(DWT_START_TX_DELAYED)\<close> returns \<open>DWT_SUCCESS\<close>.
\<close>

record anchor_input =
  serial_line :: "string option"
  rx_good :: bool
  rx_frame :: "u8 list"
  rx_timestamp :: u64
  starttx_success :: bool

text \<open>
  Reading and classifying the frame:
  \<^verbatim>\<open>if (frame_len <= sizeof(rx_buffer)) {
  dwt_readrxdata(rx_buffer, frame_len, 0);
  rx_buffer[ALL_MSG_SN_IDX] = 0;
  if (memcmp(rx_buffer, rx_poll_msg, ALL_MSG_COMMON_LEN) == 0) ...\<close>
  The result is the receive buffer afterwards and whether the frame is taken as a poll.
\<close>

definition anchor_classify :: "u8 list \<Rightarrow> u8 list \<Rightarrow> u8 list \<times> bool" where
  "anchor_classify rx_buffer frame =
     (if length frame \<le> 20 then
        (let buf = (dwt_readrxdata rx_buffer frame (length frame))[ALL_MSG_SN_IDX := 0]
         in (buf, memcmp_eq buf rx_poll_msg ALL_MSG_COMMON_LEN))
      else (rx_buffer, False))"

text \<open>
  Building the response in the static \<open>tx_resp_msg\<close> (lines 197 to 202): both
  timestamps, then the identity in byte \<open>ALL_MSG_SN_IDX\<close>.
\<close>

definition fill_response :: "u8 list \<Rightarrow> u64 \<Rightarrow> u64 \<Rightarrow> u8 \<Rightarrow> u8 list" where
  "fill_response msg poll_rx resp_tx ident =
     (resp_msg_set_ts (resp_msg_set_ts msg RESP_MSG_POLL_RX_TS_IDX poll_rx)
        RESP_MSG_RESP_TX_TS_IDX resp_tx)[ALL_MSG_SN_IDX := ident]"

text \<open>The reply to an accepted poll (lines 181 to 234).\<close>

definition anchor_respond :: "anchor_state \<Rightarrow> anchor_input \<Rightarrow> anchor_state" where
  "anchor_respond st inp =
     (let poll_rx = rx_timestamp inp;
          total_uus = slot_delay_us (anchor_id st);
          resp_tx_time32 = (ucast (drop_bit 8 (poll_rx + us_to_dwt total_uus)) :: u32);
          resp_tx = push_bit 8 (ucast (resp_tx_time32 AND 0xFFFFFFFE) :: u64) + TX_ANT_DLY;
          msg = fill_response (tx_resp_msg st) poll_rx resp_tx (anchor_id st);
          st1 = st\<lparr>poll_rx_ts := poll_rx, resp_tx_ts := resp_tx, tx_resp_msg := msg,
                   radio_calls := radio_calls st
                     @ [Setdelayedtrxtime resp_tx_time32, Writetxdata msg, Starttx_delayed]\<rparr>
      in if starttx_success inp then
           st1\<lparr>tx_confirmed := tx_confirmed st1 @ [msg],
               anchor_frame_seq_nb := anchor_frame_seq_nb st1 + 1,
               anchor_serial := anchor_serial st1 @ ''[ANCHOR '' @ dec (unat (anchor_id st1))
                 @ ''] RESP sent at +'' @ dec (unat total_uus) @ '' us'' @ CRLF\<rparr>
         else
           st1\<lparr>anchor_serial := anchor_serial st1 @ ''[ANCHOR '' @ dec (unat (anchor_id st1))
                 @ ''] Missed delayed TX window (slot='' @ dec (unat total_uus) @ '' us)'' @ CRLF\<rparr>)"

text \<open>One pass of \<open>loop\<close>.\<close>

definition anchor_loop ::
    "(string \<Rightarrow> int) \<Rightarrow> anchor_state \<Rightarrow> anchor_input \<Rightarrow> anchor_state" where
  "anchor_loop toInt st inp =
     (let st1 = handle_serial_setid toInt st (serial_line inp) in
      if restarted st1 then st1
      else
        (let st2 = st1\<lparr>radio_calls := radio_calls st1 @ [Rxenable]\<rparr> in
         if rx_good inp then
           (case anchor_classify (anchor_rx_buffer st2) (rx_frame inp) of
              (buf, is_poll) \<Rightarrow>
                (let st3 = st2\<lparr>anchor_rx_buffer := buf\<rparr>
                 in if is_poll then anchor_respond st3 inp else st3))
         else st2))"


section \<open>Tag (initiator): \<open>range_tx_tag_esp32_web.ino\<close>\<close>

subsection \<open>Time-of-flight estimator\<close>

text \<open>
  \<^verbatim>\<open>uint32_t poll_tx_ts, resp_rx_ts, poll_rx_ts, resp_tx_ts;
int32_t rtd_init, rtd_resp;
rtd_init = resp_rx_ts - poll_tx_ts;
rtd_resp = resp_tx_ts - poll_rx_ts;\<close>
  The subtractions wrap modulo \<open>2^32\<close>; the results are stored in \<open>int32_t\<close>, so the
  formula below reads them as two's complement (\<open>sint\<close>).
\<close>

definition round_trip :: "u32 \<Rightarrow> u32 \<Rightarrow> u32" where
  "round_trip later earlier = later - earlier"

text \<open>\<^verbatim>\<open>clockOffsetRatio = ((float)dwt_readclockoffset()) / (uint32_t)(1 << 26);\<close>\<close>

definition clockOffsetRatio :: "16 word \<Rightarrow> real" where
  "clockOffsetRatio clockoffset = real_of_int (sint clockoffset) / 2 ^ 26"

text \<open>
  \<^verbatim>\<open>tof = ((rtd_init - rtd_resp * (1 - clockOffsetRatio)) / 2.0) * DWT_TIME_UNITS;
distance = tof * SPEED_OF_LIGHT;\<close>
  The model's value is the exact one.  The sketch evaluates
  \<open>rtd_init - rtd_resp * (1 - clockOffsetRatio)\<close> in 32-bit \<open>float\<close>, which rounds round
  trips beyond \<open>2^24\<close> ticks, so there the sketch's result differs from the model's.
  With equal round trips and no clock offset, and at the scenario's input below, every
  intermediate value is exactly representable and the two agree.
\<close>

definition tof_of :: "u32 \<Rightarrow> u32 \<Rightarrow> real \<Rightarrow> real" where
  "tof_of rtd_init rtd_resp ratio =
     ((real_of_int (sint rtd_init) - real_of_int (sint rtd_resp) * (1 - ratio)) / 2)
       * DWT_TIME_UNITS"

definition distance_of :: "real \<Rightarrow> real" where
  "distance_of t = t * SPEED_OF_LIGHT"

subsection \<open>Handling a received frame\<close>

text \<open>
  The globals that the receive path of \<open>loop\<close> touches, the characters written to
  \<open>Serial\<close>, and the strings handed to \<open>test_run_info\<close>.
\<close>

record tag_state =
  tag_rx_buffer :: "u8 list"
  distances_m :: "real list"
  last_seen_ms :: "u32 list"
  tof :: real
  distance :: real
  tag_serial :: string
  run_info :: "string list"

definition tag_power_up :: tag_state where
  "tag_power_up =
     \<lparr>tag_rx_buffer = replicate 32 0, distances_m = replicate MAX_ANCHORS 0,
      last_seen_ms = replicate MAX_ANCHORS 0, tof = 0, distance = 0,
      tag_serial = [], run_info = []\<rparr>"

text \<open>
  What the handling of one good frame gets from outside: the frame, the low 32 bits
  of the local transmit and receive timestamps, the clock offset register, and
  \<open>millis()\<close>.
\<close>

record tag_input =
  frame :: "u8 list"
  txtimestamplo32 :: u32
  rxtimestamplo32 :: u32
  clockoffset :: "16 word"
  millis :: u32

text \<open>
  Modelled from the spec: \<open>Serial.print(double, digits)\<close> belongs to the Arduino core,
  which is not among the sources.  The spec has the distance "printed with 2 decimal
  digits": a minus sign for a negative number, the whole part of the magnitude in
  decimal, a point, and \<open>digits\<close> decimals, the last one rounded half up.
\<close>

fun frac_digits :: "real \<Rightarrow> nat \<Rightarrow> string" where
  "frac_digits remainder 0 = []"
| "frac_digits remainder (Suc n) =
     (let r10 = remainder * 10; toPrint = nat \<lfloor>r10\<rfloor>
      in dec toPrint @ frac_digits (r10 - real toPrint) n)"

definition print_double :: "real \<Rightarrow> nat \<Rightarrow> string" where
  "print_double number digits =
     (let a = \<bar>number\<bar> + (1 / 2) / 10 ^ digits; int_part = nat \<lfloor>a\<rfloor>
      in (if number < 0 then ''-'' else []) @ dec int_part
         @ (if digits > 0 then ''.'' else []) @ frac_digits (a - real int_part) digits)"

definition is_digit :: "char \<Rightarrow> bool" where
  "is_digit c \<longleftrightarrow> c \<in> set ''0123456789''"

text \<open>
  \<open>%3.2f\<close> of \<open>snprintf\<close> is the C library's and stays a parameter of the model:
  \<open>format_3_2f r d\<close> is the text it produces for \<open>d\<close>.
\<close>

record rendering =
  format_3_2f :: "real \<Rightarrow> string"

text \<open>
  A store into a C array of fixed size.  The arrays are lists of that size; a store
  outside them is undefined behaviour in C and \<open>None\<close> here.
\<close>

definition array_store :: "'a list \<Rightarrow> nat \<Rightarrow> 'a \<Rightarrow> 'a list option" where
  "array_store a i v = (if i < length a then Some (a[i := v]) else None)"

text \<open>
  Reading and classifying the frame:
  \<^verbatim>\<open>if (frame_len > sizeof(rx_buffer)) frame_len = sizeof(rx_buffer);
dwt_readrxdata(rx_buffer, frame_len, 0);
uint8_t anchor_id = rx_buffer[ALL_MSG_SN_IDX];
rx_buffer[ALL_MSG_SN_IDX] = 0;
bool header_ok = (frame_len >= ALL_MSG_COMMON_LEN) &&
                 (memcmp(rx_buffer, rx_resp_msg, ALL_MSG_COMMON_LEN) == 0);\<close>
  The result is the receive buffer afterwards, the identity byte and \<open>header_ok\<close>.
\<close>

definition tag_classify :: "u8 list \<Rightarrow> u8 list \<Rightarrow> u8 list \<times> u8 \<times> bool" where
  "tag_classify rx_buffer frm =
     (let frame_len = (if length frm > 32 then 32 else length frm);
          buf = dwt_readrxdata rx_buffer frm frame_len;
          ident = buf ! ALL_MSG_SN_IDX;
          buf' = buf[ALL_MSG_SN_IDX := 0];
          header_ok = (frame_len \<ge> ALL_MSG_COMMON_LEN
                       \<and> memcmp_eq buf' rx_resp_msg ALL_MSG_COMMON_LEN)
      in (buf', ident, header_ok))"

text \<open>
  Reporting one distance (lines 193 to 206):
  \<^verbatim>\<open>if (anchor_id < MAX_ANCHORS) {
  distances_m[anchor_id] = (float)distance;
  last_seen_ms[anchor_id] = millis();
  Serial.print("[TAG] A"); Serial.print(anchor_id); Serial.print(" = ");
  Serial.print(distance, 2); Serial.println(" m");
} else {
  char dist_str[32];
  snprintf(dist_str, sizeof(dist_str), "DIST: %3.2f m", distance);
  test_run_info((unsigned char *)dist_str);
}\<close>
  \<open>snprintf\<close> keeps at most 31 characters.
\<close>

definition tag_report :: "rendering \<Rightarrow> tag_state \<Rightarrow> u8 \<Rightarrow> u32 \<Rightarrow> tag_state option" where
  "tag_report r st ident now =
     (if unat ident < MAX_ANCHORS then
        (case array_store (distances_m st) (unat ident) (distance st) of
           None \<Rightarrow> None
         | Some ds \<Rightarrow>
             (case array_store (last_seen_ms st) (unat ident) now of
                None \<Rightarrow> None
              | Some ls \<Rightarrow>
                  Some (st\<lparr>distances_m := ds, last_seen_ms := ls,
                          tag_serial := tag_serial st @ ''[TAG] A'' @ dec (unat ident) @ '' = ''
                            @ print_double (distance st) 2 @ '' m'' @ CRLF\<rparr>)))
      else
        Some (st\<lparr>run_info := run_info st
                @ [take 31 (''DIST: '' @ format_3_2f r (distance st) @ '' m'')]\<rparr>))"

text \<open>
  The estimate from an accepted frame in the receive buffer (lines 173 to 191): the
  local timestamps and the clock offset come from the driver, the remote timestamps
  from the frame.
\<close>

definition ss_twr_tof :: "u8 list \<Rightarrow> tag_input \<Rightarrow> real" where
  "ss_twr_tof buf inp =
     (let poll_tx = txtimestamplo32 inp;
          resp_rx = rxtimestamplo32 inp;
          ratio = clockOffsetRatio (clockoffset inp);
          poll_rx = resp_msg_get_ts buf RESP_MSG_POLL_RX_TS_IDX;
          resp_tx = resp_msg_get_ts buf RESP_MSG_RESP_TX_TS_IDX;
          rtd_init = round_trip resp_rx poll_tx;
          rtd_resp = round_trip resp_tx poll_rx
      in tof_of rtd_init rtd_resp ratio)"

definition ss_twr_distance :: "u8 list \<Rightarrow> tag_input \<Rightarrow> real" where
  "ss_twr_distance buf inp = distance_of (ss_twr_tof buf inp)"

text \<open>The body of \<open>if (st & SYS_STATUS_RXFCG_BIT_MASK)\<close> (lines 145 to 212).\<close>

definition tag_on_frame :: "rendering \<Rightarrow> tag_state \<Rightarrow> tag_input \<Rightarrow> tag_state option" where
  "tag_on_frame r st inp =
     (case tag_classify (tag_rx_buffer st) (frame inp) of
        (buf, ident, header_ok) \<Rightarrow>
          (let st1 = st\<lparr>tag_rx_buffer := buf\<rparr> in
           if header_ok then
             (let st2 = st1\<lparr>tof := ss_twr_tof buf inp, distance := ss_twr_distance buf inp\<rparr>
              in tag_report r st2 ident (millis inp))
           else Some st1))"

text \<open>The sizes of the tag's arrays, which every step keeps.\<close>

definition tag_arrays_ok :: "tag_state \<Rightarrow> bool" where
  "tag_arrays_ok st \<longleftrightarrow>
     length (tag_rx_buffer st) = 32 \<and> length (distances_m st) = MAX_ANCHORS
     \<and> length (last_seen_ms st) = MAX_ANCHORS"

section \<open>Concrete frames and inputs\<close>

text \<open>
  Inputs at which the model is run below.  \<open>poll_seq5\<close> is the tag's poll with sequence
  number 5; \<open>runt_frame\<close> is the three bytes 41 88 06 followed by their frame check
  sequence 90 7B, a good frame of five bytes; \<open>long_poll\<close> is the poll followed by nine
  more bytes, 21 in all.
\<close>

definition poll_seq5 :: "u8 list" where
  "poll_seq5 = [0x41, 0x88, 5, 0xCA, 0xDE, 0x57, 0x41, 0x56, 0x45, 0xE0, 0, 0]"


definition long_poll :: "u8 list" where
  "long_poll = [0x41, 0x88, 5, 0xCA, 0xDE, 0x57, 0x41, 0x56, 0x45, 0xE0,
                0, 0, 0, 0, 0, 0, 0, 0, 0, 0, 0]"

text \<open>Two behaviours of \<open>toInt\<close>: the text denotes 21, and the text denotes 0.\<close>

definition toInt_21 :: "string \<Rightarrow> int" where
  "toInt_21 s = 21"

definition toInt_0 :: "string \<Rightarrow> int" where
  "toInt_0 s = 0"

text \<open>
  A pass of the anchor's \<open>loop\<close> with no serial input that receives the good frame
  \<open>frm\<close>, and in which the radio accepts (\<open>anchor_heard\<close>) or rejects
  (\<open>anchor_heard_late\<close>) the delayed transmission.
\<close>

definition anchor_heard :: "u8 list \<Rightarrow> anchor_input" where
  "anchor_heard frm =
     \<lparr>serial_line = None, rx_good = True, rx_frame = frm,
      rx_timestamp = 1000000, starttx_success = True\<rparr>"

definition anchor_heard_late :: "u8 list \<Rightarrow> anchor_input" where
  "anchor_heard_late frm =
     \<lparr>serial_line = None, rx_good = True, rx_frame = frm,
      rx_timestamp = 1000000, starttx_success = False\<rparr>"

text \<open>A \<open>%3.2f\<close> that writes every number as \<open>#\<close>, where an example needs one.\<close>

definition hash_rendering :: rendering where
  "hash_rendering = \<lparr>format_3_2f = (\<lambda>d. ''#'')\<rparr>"

text \<open>
  The tag's input of the spec's scenario: a response with \<open>poll_rx_ts = 1100\<close> and
  \<open>resp_tx_ts = 1340\<close> from the anchor \<open>ident\<close>, local timestamps \<open>poll_tx_ts = 1000\<close>
  and \<open>resp_rx_ts = 2240\<close>, and no clock offset.
\<close>

definition response_input :: "u8 \<Rightarrow> tag_input" where
  "response_input ident =
     \<lparr>frame = fill_response tx_resp_msg_init 1100 1340 ident, txtimestamplo32 = 1000,
      rxtimestamplo32 = 2240, clockoffset = 0, millis = 5000\<rparr>"

section \<open>Slot scheduler: proofs\<close>

lemma id_in_range_unat:
  assumes "id_in_range (uint (x :: u8))"
  shows "1 \<le> unat x" and "unat x \<le> 20"
proof -
  have a: "1 \<le> uint x" and b: "uint x \<le> 20"
    using assms by (simp_all add: id_in_range_def ID_MIN_def ID_MAX_def)
  show "1 \<le> unat x" using a by (metis unsigned_1 un_ui_le)
  show "unat x \<le> 20" using b by (metis of_nat_le_numeral_iff of_nat_unat)
qed

text \<open>For a valid identity nothing wraps: the delay is the formula on natural numbers.\<close>

lemma slot_delay_us_unat:
  assumes "id_in_range (uint ident)"
  shows "unat (slot_delay_us ident) = 600 + (unat ident - 1) * 2000"
proof -
  have r: "1 \<le> unat ident" "unat ident \<le> 20"
    using id_in_range_unat [OF assms] by simp_all
  have u: "unat (ucast ident :: u32) = unat ident"
    using r by (simp add: unsigned_ucast_eq take_bit_nat_eq_self)
  have one: "(1 :: u32) \<le> ucast ident"
    using r u by (simp add: word_le_nat_alt)
  define x where "x = (ucast ident :: u32) - 1"
  have m: "unat x = unat ident - 1"
    unfolding x_def using one u by (simp add: unat_sub)
  have "unat x * unat (2000 :: u32) < 2 ^ LENGTH(32)"
    using r m by simp
  then have p: "unat (x * 2000) = unat x * 2000"
    by (simp add: unat_mult_lem [THEN iffD1])
  have "unat (600 :: u32) + unat (x * 2000) < 2 ^ LENGTH(32)"
    using r m p by simp
  then have "unat (600 + x * 2000) = 600 + unat x * 2000"
    using p by (simp add: unat_add_lem [THEN iffD1])
  then show ?thesis
    using m by (simp add: slot_delay_us_def BASE_REPLY_DLY_US_def SLOT_DELAY_US_def x_def)
qed

text \<open>
  C1.  Slot disjointness: two different identities of \<open>[ID_MIN, ID_MAX] = [1, 20]\<close> get
  delays at least \<open>SLOT_DELAY_US = 2000\<close> microseconds apart, and no delay of a valid
  identity is below \<open>BASE_REPLY_DLY_US = 600\<close>.
\<close>

theorem slot_disjointness:
  assumes "id_in_range (uint i)" and "id_in_range (uint j)" and "i \<noteq> j"
  shows "\<bar>int (unat (slot_delay_us i)) - int (unat (slot_delay_us j))\<bar> \<ge> int (unat SLOT_DELAY_US)
       \<and> unat (slot_delay_us i) \<ge> unat BASE_REPLY_DLY_US"
proof -
  have ri: "1 \<le> unat i" and rj: "1 \<le> unat j"
    using id_in_range_unat [OF assms(1)] id_in_range_unat [OF assms(2)] by simp_all
  have ne: "unat i \<noteq> unat j"
    using assms(3) by (simp add: word_unat_eq_iff)
  have di: "unat (slot_delay_us i) = 600 + (unat i - 1) * 2000"
    by (rule slot_delay_us_unat [OF assms(1)])
  have dj: "unat (slot_delay_us j) = 600 + (unat j - 1) * 2000"
    by (rule slot_delay_us_unat [OF assms(2)])
  have s: "unat SLOT_DELAY_US = 2000" "unat BASE_REPLY_DLY_US = 600"
    by (simp_all add: SLOT_DELAY_US_def BASE_REPLY_DLY_US_def)
  have "\<bar>int (600 + (unat i - 1) * 2000) - int (600 + (unat j - 1) * 2000)\<bar> \<ge> 2000"
    using ri rj ne by arith
  then show ?thesis
    unfolding di dj s by simp
qed

theorem slot_disjointness_witness:
  "id_in_range (uint (3 :: u8)) \<and> id_in_range (uint (20 :: u8)) \<and> (3 :: u8) \<noteq> 20
   \<and> \<bar>int (unat (slot_delay_us 3)) - int (unat (slot_delay_us 20))\<bar> \<ge> int (unat SLOT_DELAY_US)
   \<and> unat (slot_delay_us 3) \<ge> unat BASE_REPLY_DLY_US"
proof -
  have a: "id_in_range (uint (3 :: u8))" by (simp add: id_in_range_def ID_MIN_def ID_MAX_def)
  have b: "id_in_range (uint (20 :: u8))" by (simp add: id_in_range_def ID_MIN_def ID_MAX_def)
  have c: "(3 :: u8) \<noteq> 20" by simp
  show ?thesis using a b c slot_disjointness [OF a b c] by simp
qed

section \<open>Frame codec: proofs\<close>

text \<open>Four bytes, least significant first, put together again: the low 32 bits.\<close>

lemma get_set_bytes:
  "(ucast (ucast (ts :: u64) :: u8) :: u32) OR push_bit 8 (ucast (ucast (drop_bit 8 ts) :: u8))
       OR push_bit 16 (ucast (ucast (drop_bit 16 ts) :: u8))
       OR push_bit 24 (ucast (ucast (drop_bit 24 ts) :: u8))
   = ucast ts"
proof (rule bit_word_eqI)
  fix n assume n: "n < LENGTH(32)"
  consider "n < 8" | "8 \<le> n" "n < 16" | "16 \<le> n" "n < 24" | "24 \<le> n" "n < 32"
    using n by fastforce
  then show "bit ((ucast (ucast ts :: u8) :: u32) OR push_bit 8 (ucast (ucast (drop_bit 8 ts) :: u8))
       OR push_bit 16 (ucast (ucast (drop_bit 16 ts) :: u8))
       OR push_bit 24 (ucast (ucast (drop_bit 24 ts) :: u8))) n
     = bit (ucast ts :: u32) n"
    by cases (auto simp: bit_simps)
qed

lemma resp_msg_get_set_ts:
  assumes "idx + 3 < length buf"
  shows "resp_msg_get_ts (resp_msg_set_ts buf idx ts) idx = ucast ts"
  using assms by (simp add: resp_msg_get_ts_def resp_msg_set_ts_def get_set_bytes)

text \<open>The response as the anchor sends it the first time.\<close>

lemma fill_response_bytes:
  "fill_response tx_resp_msg_init t1 t2 ident =
     [0x41, 0x88, ident, 0xCA, 0xDE, 0x56, 0x45, 0x57, 0x41, 0xE1,
      ucast t1, ucast (drop_bit 8 t1), ucast (drop_bit 16 t1), ucast (drop_bit 24 t1),
      ucast t2, ucast (drop_bit 8 t2), ucast (drop_bit 16 t2), ucast (drop_bit 24 t2), 0, 0]"
  by (simp add: fill_response_def tx_resp_msg_init_def resp_msg_set_ts_def
      RESP_MSG_POLL_RX_TS_IDX_def RESP_MSG_RESP_TX_TS_IDX_def ALL_MSG_SN_IDX_def)

text \<open>
  Every later response is built over the previous one in the same static array; all
  the bytes that differ are written again, so the result does not depend on history.
\<close>

lemma fill_response_again:
  "fill_response (fill_response tx_resp_msg_init a b c) t1 t2 ident
     = fill_response tx_resp_msg_init t1 t2 ident"
  unfolding fill_response_bytes
  by (simp add: fill_response_def resp_msg_set_ts_def
      RESP_MSG_POLL_RX_TS_IDX_def RESP_MSG_RESP_TX_TS_IDX_def ALL_MSG_SN_IDX_def)

text \<open>
  C2.  Codec round trip: the response that the anchor builds from the timestamps
  \<open>t1\<close>, \<open>t2\<close> and its identity byte, read by the tag into its receive buffer
  (whatever that held before), is classified as a response (\<open>header_ok\<close>), yields the
  identity byte, and \<open>resp_msg_get_ts\<close> at the offsets 10 and 14 gives \<open>t1\<close> and \<open>t2\<close>
  modulo \<open>2^32\<close> (\<open>ucast\<close> from 64 to 32 bits).
\<close>

theorem codec_round_trip:
  "(case tag_classify rxb (fill_response tx_resp_msg_init t1 t2 ident) of
      (buf, i, header_ok) \<Rightarrow>
        header_ok \<and> i = ident
        \<and> resp_msg_get_ts buf RESP_MSG_POLL_RX_TS_IDX = (ucast t1 :: u32)
        \<and> resp_msg_get_ts buf RESP_MSG_RESP_TX_TS_IDX = (ucast t2 :: u32)
        \<and> unat (resp_msg_get_ts buf RESP_MSG_POLL_RX_TS_IDX) = unat t1 mod 2 ^ 32
        \<and> unat (resp_msg_get_ts buf RESP_MSG_RESP_TX_TS_IDX) = unat t2 mod 2 ^ 32)"
proof -
  have m: "unat (ucast t :: u32) = unat t mod 2 ^ 32" for t :: u64
    by (simp add: unsigned_ucast_eq take_bit_eq_mod)
  show ?thesis
    unfolding fill_response_bytes
    by (simp add: tag_classify_def dwt_readrxdata_def memcmp_eq_def rx_resp_msg_def
        ALL_MSG_SN_IDX_def ALL_MSG_COMMON_LEN_def RESP_MSG_POLL_RX_TS_IDX_def
        RESP_MSG_RESP_TX_TS_IDX_def resp_msg_get_ts_def get_set_bytes Let_def m)
qed

section \<open>Time-of-flight estimator: proofs\<close>

text \<open>Without a clock offset the estimate is half the difference of the round trips.\<close>

lemma tof_of_no_offset:
  "tof_of rtd_init rtd_resp 0
     = (real_of_int (sint rtd_init) - real_of_int (sint rtd_resp)) / 2 * DWT_TIME_UNITS"
  by (simp add: tof_of_def)

text \<open>
  C3, as the claim states it, fails: with both round trips 1000 ticks and no clock
  offset, the formula gives 0 and not \<open>1000 / 2 * DWT_TIME_UNITS\<close>.
\<close>

theorem tof_symmetry_counterexample:
  "(1000 :: u32) = 1000 \<and> (0 :: real) = 0
   \<and> tof_of 1000 1000 0 \<noteq> real_of_int (sint (1000 :: u32)) / 2 * DWT_TIME_UNITS"
  by (simp add: tof_of_def DWT_TIME_UNITS_def)

text \<open>
  C3, amended.  Time-of-flight symmetry: if the initiator's and the responder's round
  trips are equal and the clock offset ratio is 0, the time of flight is exactly 0.
\<close>

theorem tof_symmetry:
  assumes "rtd_init = rtd_resp" and "ratio = 0"
  shows "tof_of rtd_init rtd_resp ratio = 0"
  using assms by (simp add: tof_of_def)

theorem tof_symmetry_witness:
  "tof_of 1000 1000 0 = 0"
  using tof_symmetry [of 1000 1000 0] by simp

text \<open>The scenario's response, classified by a tag that has just started.\<close>

lemma response_input_classify:
  "tag_classify (tag_rx_buffer tag_power_up) (frame (response_input ident))
     = ([0x41, 0x88, 0, 0xCA, 0xDE, 0x56, 0x45, 0x57, 0x41, 0xE1,
         0x4C, 0x04, 0, 0, 0x3C, 0x05, 0, 0, 0, 0,
         0, 0, 0, 0, 0, 0, 0, 0, 0, 0, 0, 0], ident, True)"
proof -
  have r: "replicate 12 (0 :: u8) = [0, 0, 0, 0, 0, 0, 0, 0, 0, 0, 0, 0]"
    by (simp add: numeral_eq_Suc)
  show ?thesis
    unfolding response_input_def
    by (simp add: fill_response_bytes tag_classify_def tag_power_up_def dwt_readrxdata_def
        memcmp_eq_def rx_resp_msg_def ALL_MSG_SN_IDX_def ALL_MSG_COMMON_LEN_def Let_def r)
qed

lemma scenario_tof:
  "ss_twr_tof [0x41, 0x88, 0, 0xCA, 0xDE, 0x56, 0x45, 0x57, 0x41, 0xE1,
         0x4C, 0x04, 0, 0, 0x3C, 0x05, 0, 0, 0, 0,
         0, 0, 0, 0, 0, 0, 0, 0, 0, 0, 0, 0] (response_input ident)
     = tof_of (round_trip 2240 1000) (round_trip 1340 1100) (clockOffsetRatio 0)"
  by (simp add: ss_twr_tof_def response_input_def resp_msg_get_ts_def Let_def
      RESP_MSG_POLL_RX_TS_IDX_def RESP_MSG_RESP_TX_TS_IDX_def round_trip_def)

text \<open>
  C4, as the claim states it, fails in its last figure: the distance at the scenario's
  input is not 2.346 m to the three decimals given (it is not within 0.0005 of it).
\<close>

theorem concrete_scenario_counterexample:
  "\<not> \<bar>distance_of (tof_of (round_trip 2240 1000) (round_trip 1340 1100) (clockOffsetRatio 0))
        - 2346 / 1000\<bar> \<le> 5 / 10000"
  by (simp add: round_trip_def tof_of_def distance_of_def clockOffsetRatio_def
      DWT_TIME_UNITS_def SPEED_OF_LIGHT_def)

text \<open>
  C4, amended.  At \<open>poll_tx_ts = 1000\<close>, \<open>resp_rx_ts = 2240\<close>, \<open>poll_rx_ts = 1100\<close>,
  \<open>resp_tx_ts = 1340\<close> and clock offset 0, with the device time unit
  \<open>1/(499.2e6*128)\<close> s: the round trips are 1240 and 240, the time of flight is
  \<open>(1240 - 240) / 2\<close> time units, which is 7.825e-9 s to within 1e-13, and the distance
  is that time times 299702547, which is 2.34518 m to within 1e-5 (2.345 m to three
  decimals).  The tag's handling of the frame stores exactly these in \<open>tof\<close> and
  \<open>distance\<close>.
\<close>

theorem concrete_scenario:
  "round_trip 2240 1000 = 1240 \<and> round_trip 1340 1100 = 240
   \<and> sint (round_trip 2240 1000) = 1240 \<and> sint (round_trip 1340 1100) = 240
   \<and> DWT_TIME_UNITS = 1 / (4992 / 10 * 10 ^ 6 * 128)
   \<and> tof_of (round_trip 2240 1000) (round_trip 1340 1100) (clockOffsetRatio 0)
       = (1240 - 240) / 2 * DWT_TIME_UNITS
   \<and> \<bar>tof_of (round_trip 2240 1000) (round_trip 1340 1100) (clockOffsetRatio 0)
        - 7825 / 10 ^ 12\<bar> < 1 / 10 ^ 13
   \<and> distance_of (tof_of (round_trip 2240 1000) (round_trip 1340 1100) (clockOffsetRatio 0))
       = (1240 - 240) / 2 * DWT_TIME_UNITS * 299702547
   \<and> \<bar>distance_of (tof_of (round_trip 2240 1000) (round_trip 1340 1100) (clockOffsetRatio 0))
        - 234518 / 10 ^ 5\<bar> < 1 / 10 ^ 5
   \<and> map_option tof (tag_on_frame r tag_power_up (response_input 3))
       = Some (tof_of (round_trip 2240 1000) (round_trip 1340 1100) (clockOffsetRatio 0))
   \<and> map_option distance (tag_on_frame r tag_power_up (response_input 3))
       = Some (distance_of (tof_of (round_trip 2240 1000) (round_trip 1340 1100)
                 (clockOffsetRatio 0)))"
proof -
  have n: "round_trip 2240 1000 = 1240 \<and> round_trip 1340 1100 = 240
      \<and> sint (round_trip 2240 1000) = 1240 \<and> sint (round_trip 1340 1100) = 240
      \<and> DWT_TIME_UNITS = 1 / (4992 / 10 * 10 ^ 6 * 128)"
    by (simp add: round_trip_def DWT_TIME_UNITS_def)
  have t: "tof_of (round_trip 2240 1000) (round_trip 1340 1100) (clockOffsetRatio 0)
      = (1240 - 240) / 2 * DWT_TIME_UNITS"
    by (simp add: round_trip_def tof_of_def clockOffsetRatio_def)
  have v: "\<bar>(1240 - 240) / 2 * DWT_TIME_UNITS - 7825 / 10 ^ 12\<bar> < 1 / 10 ^ 13
      \<and> \<bar>(1240 - 240) / 2 * DWT_TIME_UNITS * 299702547 - 234518 / 10 ^ 5\<bar> < 1 / 10 ^ 5"
    by (simp add: DWT_TIME_UNITS_def)
  define st2 where "st2 = tag_power_up\<lparr>tag_rx_buffer := fst (tag_classify (tag_rx_buffer tag_power_up)
              (frame (response_input 3))),
            tof := tof_of (round_trip 2240 1000) (round_trip 1340 1100) (clockOffsetRatio 0),
            distance := distance_of (tof_of (round_trip 2240 1000) (round_trip 1340 1100)
              (clockOffsetRatio 0))\<rparr>"
  have f: "tag_on_frame r tag_power_up (response_input 3)
      = tag_report r st2 3 (millis (response_input 3))"
    unfolding tag_on_frame_def response_input_classify st2_def
    by (simp add: Let_def ss_twr_distance_def scenario_tof)
  have l: "length (distances_m st2) = 20" "length (last_seen_ms st2) = 20"
    by (simp_all add: st2_def tag_power_up_def MAX_ANCHORS_def)
  have g: "map_option tof (tag_report r st2 3 now) = Some (tof st2)
      \<and> map_option distance (tag_report r st2 3 now) = Some (distance st2)" for now
    using l by (simp add: tag_report_def array_store_def MAX_ANCHORS_def)
  have h: "map_option tof (tag_on_frame r tag_power_up (response_input 3))
        = Some (tof_of (round_trip 2240 1000) (round_trip 1340 1100) (clockOffsetRatio 0))
      \<and> map_option distance (tag_on_frame r tag_power_up (response_input 3))
        = Some (distance_of (tof_of (round_trip 2240 1000) (round_trip 1340 1100)
                  (clockOffsetRatio 0)))"
    unfolding f using g by (simp add: st2_def)
  show ?thesis
    using n v h unfolding t by (simp add: distance_of_def SPEED_OF_LIGHT_def)
qed

section \<open>Frame classification: proofs\<close>

text \<open>
  The first \<open>k\<close> bytes of the buffer after a read of \<open>n \<ge> k\<close> bytes and a store at
  an index below \<open>k\<close> are the frame's, whatever the buffer held.
\<close>

lemma take_read_update:
  assumes "k \<le> n" and "n \<le> length frm" and "i < k"
  shows "take k ((dwt_readrxdata rxb frm n)[i := v]) = take k (frm[i := v])"
proof -
  have "(dwt_readrxdata rxb frm n)[i := v] = (take n frm)[i := v] @ drop n rxb"
    using assms by (simp add: dwt_readrxdata_def list_update_append)
  then have "take k ((dwt_readrxdata rxb frm n)[i := v]) = take k ((take n frm)[i := v])"
    using assms by simp
  also have "\<dots> = take k (take n (frm[i := v]))"
    by (simp add: take_update_swap)
  also have "\<dots> = take k (frm[i := v])"
    using assms by (simp add: min_def)
  finally show ?thesis .
qed

lemma tag_classify_accept:
  assumes "ALL_MSG_COMMON_LEN \<le> length frm"
  shows "snd (snd (tag_classify rxb frm))
     \<longleftrightarrow> take ALL_MSG_COMMON_LEN (frm[ALL_MSG_SN_IDX := 0])
           = take ALL_MSG_COMMON_LEN rx_resp_msg"
proof -
  define n where "n = (if length frm > 32 then 32 else length frm)"
  have n: "ALL_MSG_COMMON_LEN \<le> n" "n \<le> length frm"
    using assms by (simp_all add: n_def ALL_MSG_COMMON_LEN_def)
  have i: "ALL_MSG_SN_IDX < ALL_MSG_COMMON_LEN"
    by (simp add: ALL_MSG_SN_IDX_def ALL_MSG_COMMON_LEN_def)
  show ?thesis
    using n by (simp add: tag_classify_def Let_def memcmp_eq_def n_def [symmetric]
        take_read_update [OF n i])
qed


lemma anchor_classify_accept:
  assumes "ALL_MSG_COMMON_LEN \<le> length frm"
  shows "snd (anchor_classify rxb frm)
     \<longleftrightarrow> length frm \<le> 20
         \<and> take ALL_MSG_COMMON_LEN (frm[ALL_MSG_SN_IDX := 0])
             = take ALL_MSG_COMMON_LEN rx_poll_msg"
proof -
  have i: "ALL_MSG_SN_IDX < ALL_MSG_COMMON_LEN"
    by (simp add: ALL_MSG_SN_IDX_def ALL_MSG_COMMON_LEN_def)
  show ?thesis
    by (simp add: anchor_classify_def Let_def memcmp_eq_def
        take_read_update [OF assms order_refl i])
qed

subsection \<open>Frames shorter than the header\<close>
















text \<open>A check of the CRC against the value published for the text "123456789".\<close>

lemma fcs16_check: "fcs16 [0x31, 0x32, 0x33, 0x34, 0x35, 0x36, 0x37, 0x38, 0x39] = 0x2189"
  by (simp add: fcs16_def crc_byte_def crc_step8_def crc_step_def)











text \<open>
  C6, as the claim states it, fails on the anchor: \<open>long_poll\<close> has 21 bytes and the
  poll's header, and the anchor, whose receive buffer has 20 bytes, does not read it.
\<close>

theorem header_match_counterexample:
  "ALL_MSG_COMMON_LEN \<le> length long_poll
   \<and> take ALL_MSG_COMMON_LEN (long_poll[ALL_MSG_SN_IDX := 0])
       = take ALL_MSG_COMMON_LEN rx_poll_msg
   \<and> \<not> snd (anchor_classify (replicate 20 0) long_poll)"
  by (simp add: anchor_classify_def long_poll_def rx_poll_msg_def ALL_MSG_COMMON_LEN_def
      ALL_MSG_SN_IDX_def)

text \<open>
  C6, amended.  For every received frame of at least \<open>ALL_MSG_COMMON_LEN = 10\<close> bytes,
  whatever the receive buffer held: the tag accepts it as a response if and only if
  its first 10 bytes, with byte 2 replaced by zero, are those of \<open>rx_resp_msg\<close>; the
  anchor accepts it as a poll if and only if it has at most 20 bytes (the size of the
  anchor's buffer) and its first 10 bytes, with byte 2 replaced by zero, are those of
  \<open>rx_poll_msg\<close>.  Neither outcome depends on byte 2.
\<close>

theorem header_match:
  assumes "ALL_MSG_COMMON_LEN \<le> length frm"
  shows "(snd (snd (tag_classify rxb frm))
           \<longleftrightarrow> take ALL_MSG_COMMON_LEN (frm[ALL_MSG_SN_IDX := 0])
                 = take ALL_MSG_COMMON_LEN rx_resp_msg)
       \<and> (snd (anchor_classify rxa frm)
           \<longleftrightarrow> length frm \<le> 20
               \<and> take ALL_MSG_COMMON_LEN (frm[ALL_MSG_SN_IDX := 0])
                   = take ALL_MSG_COMMON_LEN rx_poll_msg)
       \<and> snd (snd (tag_classify rxb (frm[ALL_MSG_SN_IDX := b])))
           = snd (snd (tag_classify rxb frm))
       \<and> snd (anchor_classify rxa (frm[ALL_MSG_SN_IDX := b]))
           = snd (anchor_classify rxa frm)"
  using assms by (simp add: tag_classify_accept anchor_classify_accept)

theorem header_match_witness:
  "ALL_MSG_COMMON_LEN \<le> length poll_seq5
   \<and> \<not> snd (snd (tag_classify (replicate 32 0) poll_seq5))
   \<and> snd (anchor_classify (replicate 20 0) poll_seq5)
   \<and> snd (anchor_classify (replicate 20 0) (poll_seq5[ALL_MSG_SN_IDX := 9]))"
proof -
  have a: "ALL_MSG_COMMON_LEN \<le> length poll_seq5"
    by (simp add: poll_seq5_def ALL_MSG_COMMON_LEN_def)
  show ?thesis
    using a header_match [OF a, of "replicate 32 0" "replicate 20 0" 9]
    by (simp add: poll_seq5_def rx_poll_msg_def rx_resp_msg_def ALL_MSG_COMMON_LEN_def
        ALL_MSG_SN_IDX_def)
qed

section \<open>Anchor identity: proofs\<close>

lemma dec_1: "dec (Suc 0) = ''1''"
  by (simp add: dec.simps digit_char_def)

lemma dec_20: "dec 20 = ''20''"
  by (simp add: dec.simps digit_char_def)

lemma dec_600: "dec 600 = ''600''"
  by (simp add: dec.simps digit_char_def)

lemma dec_ID: "dec (nat ID_MIN) = ''1''" "dec (nat ID_MAX) = ''20''"
  by (simp_all add: ID_MIN_def ID_MAX_def dec_1 dec_20)

lemma load_id_or_fallback_range: "id_in_range (uint (load_id_or_fallback e))"
  by (simp add: load_id_or_fallback_def id_in_range_def ID_MIN_def ID_MAX_def)

text \<open>Only \<open>setup\<close> assigns \<open>anchor_id\<close>; the loop and the serial command keep it.\<close>

lemma handle_serial_setid_keeps:
  "radio_calls (handle_serial_setid toInt st l) = radio_calls st"
  "tx_confirmed (handle_serial_setid toInt st l) = tx_confirmed st"
  "anchor_frame_seq_nb (handle_serial_setid toInt st l) = anchor_frame_seq_nb st"
  "anchor_id (handle_serial_setid toInt st l) = anchor_id st"
  "anchor_rx_buffer (handle_serial_setid toInt st l) = anchor_rx_buffer st"
  by (simp_all add: handle_serial_setid_def Let_def save_id_and_reboot_def
      split: option.splits)

lemma anchor_loop_keeps_id: "anchor_id (anchor_loop toInt st inp) = anchor_id st"
  by (simp add: anchor_loop_def Let_def case_prod_beta anchor_respond_def
      handle_serial_setid_keeps)

lemma anchor_setup_id_in_range:
  assumes "\<not> restarted (anchor_setup toInt st line)"
  shows "id_in_range (uint (anchor_id (anchor_setup toInt st line)))"
  using assms by (simp add: anchor_setup_def Let_def load_id_or_fallback_range split: if_splits)

lemma anchor_setup_plain:
  "anchor_setup toInt (anchor_power_up e) None
     = (anchor_power_up e)\<lparr>anchor_id := load_id_or_fallback e,
         anchor_serial := ''[ANCHOR] Using ID='' @ dec (unat (load_id_or_fallback e))
           @ '' (valid 1..20). Type 'SETID <n>' to change (auto-reboot).'' @ CRLF\<rparr>"
  by (simp add: anchor_setup_def handle_serial_setid_def anchor_power_up_def Let_def dec_ID)

text \<open>
  C7, as the claim states it, fails: the slot computation has no check and yields a
  delay for the identities 0 and 21, and a stored identity of 21 makes \<open>setup\<close>
  continue with identity 1 and report it as the identity in use, with no error.
\<close>

theorem identity_rejection_counterexample:
  "slot_delay_us 0 = 4294965896 \<and> slot_delay_us 21 = 40600
   \<and> load_id_or_fallback 0 = 1 \<and> load_id_or_fallback 21 = 1
   \<and> anchor_setup toInt_0 (anchor_power_up 21) None
       = (anchor_power_up 21)\<lparr>anchor_id := 1,
           anchor_serial := ''[ANCHOR] Using ID=1 (valid 1..20). Type 'SETID <n>' to change (auto-reboot).'' @ CRLF\<rparr>"
proof -
  have l: "load_id_or_fallback 0 = 1" "load_id_or_fallback 21 = 1"
    by (simp_all add: load_id_or_fallback_def ID_MIN_def ID_MAX_def)
  have s: "slot_delay_us 0 = 4294965896" "slot_delay_us 21 = 40600"
    by (simp_all add: slot_delay_us_def BASE_REPLY_DLY_US_def SLOT_DELAY_US_def)
  show ?thesis
    unfolding anchor_setup_plain l using s by (simp add: dec_1)
qed

text \<open>
  C7, amended.  The slot computation does not validate the identity; an identity
  outside \<open>[ID_MIN, ID_MAX]\<close> never reaches it.  A stored identity \<open>e\<close> outside the range
  is replaced by 1 at start-up, without an error: \<open>setup\<close> reports "Using ID=1" and
  goes on.  Whatever is stored, the identity that \<open>setup\<close> assigns is in the range, and
  a pass of \<open>loop\<close> does not change it.  A \<open>SETID\<close> command whose value is outside the
  range writes the line "[ANCHOR] Invalid ID. Use 1..20" and changes nothing else.
\<close>

theorem identity_validation:
  assumes "\<not> id_in_range (uint e)"
      and "startsWith s ''SETID''" and "indexOf s CHR '' '' > 0"
      and "\<not> id_in_range (toInt (substring s (indexOf s CHR '' '' + 1)))"
  shows "load_id_or_fallback e = 1
       \<and> anchor_setup toInt (anchor_power_up e) None
           = (anchor_power_up e)\<lparr>anchor_id := 1,
               anchor_serial := ''[ANCHOR] Using ID=1 (valid 1..20). Type 'SETID <n>' to change (auto-reboot).'' @ CRLF\<rparr>
       \<and> id_in_range (uint (anchor_id (anchor_setup toInt (anchor_power_up e') None)))
       \<and> anchor_id (anchor_loop toInt st inp) = anchor_id st
       \<and> handle_serial_setid toInt st (Some s)
           = st\<lparr>anchor_serial := anchor_serial st @ ''[ANCHOR] Invalid ID. Use 1..20'' @ CRLF\<rparr>"
proof -
  have r1: "(uint e \<ge> ID_MIN \<and> uint e \<le> ID_MAX) = False"
    using assms(1) by (simp add: id_in_range_def)
  have l: "load_id_or_fallback e = 1"
    unfolding load_id_or_fallback_def r1 by simp
  have r2: "(toInt (substring s (indexOf s CHR '' '' + 1)) \<ge> ID_MIN
             \<and> toInt (substring s (indexOf s CHR '' '' + 1)) \<le> ID_MAX) = False"
    using assms(4) by (simp add: id_in_range_def)
  have h: "handle_serial_setid toInt st (Some s)
           = st\<lparr>anchor_serial := anchor_serial st @ ''[ANCHOR] Invalid ID. Use 1..20'' @ CRLF\<rparr>"
    using assms(2,3) by (simp add: handle_serial_setid_def Let_def r2 dec_ID)
  have su: "anchor_setup toInt (anchor_power_up e) None
      = (anchor_power_up e)\<lparr>anchor_id := 1,
          anchor_serial := ''[ANCHOR] Using ID=1 (valid 1..20). Type 'SETID <n>' to change (auto-reboot).'' @ CRLF\<rparr>"
    unfolding anchor_setup_plain l by (simp add: dec_1)
  have i: "id_in_range (uint (anchor_id (anchor_setup toInt (anchor_power_up e') None)))"
    unfolding anchor_setup_plain by (simp add: load_id_or_fallback_range)
  show ?thesis
    using l h su i anchor_loop_keeps_id [of toInt st inp] by simp
qed

theorem identity_validation_witness:
  "\<not> id_in_range (uint (0 :: u8)) \<and> startsWith ''SETID 21'' ''SETID''
   \<and> indexOf ''SETID 21'' CHR '' '' > 0
   \<and> \<not> id_in_range (toInt_21 (substring ''SETID 21'' (indexOf ''SETID 21'' CHR '' '' + 1)))
   \<and> load_id_or_fallback 0 = 1
   \<and> handle_serial_setid toInt_21 (anchor_power_up 0) (Some ''SETID 21'')
       = (anchor_power_up 0)\<lparr>anchor_serial := ''[ANCHOR] Invalid ID. Use 1..20'' @ CRLF\<rparr>"
proof -
  have a: "\<not> id_in_range (uint (0 :: u8))" by (simp add: id_in_range_def ID_MIN_def)
  have b: "startsWith ''SETID 21'' ''SETID''" by (simp add: startsWith_def)
  have c: "indexOf ''SETID 21'' CHR '' '' > 0" by (simp add: indexOf_def)
  have d: "\<not> id_in_range (toInt_21 (substring ''SETID 21'' (indexOf ''SETID 21'' CHR '' '' + 1)))"
    by (simp add: toInt_21_def id_in_range_def ID_MAX_def)
  show ?thesis
    using a b c d
      identity_validation [where e = 0 and s = "''SETID 21''" and toInt = toInt_21
        and st = "anchor_power_up 0" and e' = 0, OF a b c d]
    by (simp add: anchor_power_up_def)
qed

section \<open>Missed slot: proofs\<close>

text \<open>The reply when the radio rejects the delayed transmission.\<close>

lemma anchor_respond_missed:
  assumes "\<not> starttx_success inp"
  shows "anchor_serial (anchor_respond st inp)
           = anchor_serial st @ ''[ANCHOR '' @ dec (unat (anchor_id st))
             @ ''] Missed delayed TX window (slot='' @ dec (unat (slot_delay_us (anchor_id st)))
             @ '' us)'' @ CRLF"
    and "tx_confirmed (anchor_respond st inp) = tx_confirmed st"
    and "anchor_frame_seq_nb (anchor_respond st inp) = anchor_frame_seq_nb st"
    and "restarted (anchor_respond st inp) = restarted st"
    and "\<exists>t m. radio_calls (anchor_respond st inp)
           = radio_calls st @ [Setdelayedtrxtime t, Writetxdata m, Starttx_delayed]"
  using assms by (simp_all add: anchor_respond_def Let_def)

text \<open>Every pass that is not cut short by a restart first enables the receiver.\<close>

lemma anchor_loop_listens:
  assumes "\<not> restarted (handle_serial_setid toInt st (serial_line inp))"
  shows "\<exists>rest. radio_calls (anchor_loop toInt st inp) = radio_calls st @ Rxenable # rest"
  using assms
  by (simp add: anchor_loop_def Let_def anchor_respond_def case_prod_beta
      handle_serial_setid_keeps)

text \<open>
  C8.  Missed slot: in a pass of the anchor's loop that accepts a poll and in which
  \<open>dwt_starttx(DWT_START_TX_DELAYED)\<close> does not return \<open>DWT_SUCCESS\<close>, the anchor writes
  the line "[ANCHOR id] Missed delayed TX window (slot=N us)" once, no transmission is
  confirmed, \<open>frame_seq_nb\<close> keeps its value, the driver is asked to transmit once and
  no more, and the next pass starts by enabling the receiver.
\<close>

theorem missed_slot:
  assumes "\<not> restarted (handle_serial_setid toInt st (serial_line inp))"
      and "rx_good inp"
      and "snd (anchor_classify (anchor_rx_buffer st) (rx_frame inp))"
      and "\<not> starttx_success inp"
  shows "anchor_serial (anchor_loop toInt st inp)
           = anchor_serial (handle_serial_setid toInt st (serial_line inp))
             @ ''[ANCHOR '' @ dec (unat (anchor_id st)) @ ''] Missed delayed TX window (slot=''
             @ dec (unat (slot_delay_us (anchor_id st))) @ '' us)'' @ CRLF
       \<and> tx_confirmed (anchor_loop toInt st inp) = tx_confirmed st
       \<and> anchor_frame_seq_nb (anchor_loop toInt st inp) = anchor_frame_seq_nb st
       \<and> (\<exists>t m. radio_calls (anchor_loop toInt st inp)
              = radio_calls st @ [Rxenable, Setdelayedtrxtime t, Writetxdata m, Starttx_delayed])
       \<and> \<not> restarted (anchor_loop toInt st inp)
       \<and> (\<exists>rest. radio_calls (anchor_loop toInt (anchor_loop toInt st inp) (anchor_heard frm))
              = radio_calls (anchor_loop toInt st inp) @ Rxenable # rest)"
proof -
  define st1 where "st1 = handle_serial_setid toInt st (serial_line inp)"
  define st3 where "st3 = st1\<lparr>radio_calls := radio_calls st1 @ [Rxenable],
      anchor_rx_buffer := fst (anchor_classify (anchor_rx_buffer st) (rx_frame inp))\<rparr>"
  have k: "radio_calls st1 = radio_calls st" "tx_confirmed st1 = tx_confirmed st"
      "anchor_frame_seq_nb st1 = anchor_frame_seq_nb st" "anchor_id st1 = anchor_id st"
      "anchor_rx_buffer st1 = anchor_rx_buffer st"
    by (simp_all add: st1_def handle_serial_setid_keeps)
  have l: "anchor_loop toInt st inp = anchor_respond st3 inp"
    using assms(1,2,3) k(5)
    by (simp add: anchor_loop_def Let_def st1_def [symmetric] st3_def case_prod_beta)
  have s3: "anchor_serial st3 = anchor_serial st1" "tx_confirmed st3 = tx_confirmed st"
      "anchor_frame_seq_nb st3 = anchor_frame_seq_nb st" "anchor_id st3 = anchor_id st"
      "radio_calls st3 = radio_calls st @ [Rxenable]" "restarted st3 = restarted st1"
    by (simp_all add: st3_def k)
  have nr: "\<not> restarted (anchor_loop toInt st inp)"
    unfolding l using anchor_respond_missed(4) [OF assms(4), of st3] assms(1)
    by (simp add: s3 st1_def [symmetric])
  have "\<not> restarted (handle_serial_setid toInt (anchor_loop toInt st inp)
           (serial_line (anchor_heard frm)))"
    using nr by (simp add: anchor_heard_def handle_serial_setid_def)
  then have nx: "\<exists>rest. radio_calls (anchor_loop toInt (anchor_loop toInt st inp) (anchor_heard frm))
              = radio_calls (anchor_loop toInt st inp) @ Rxenable # rest"
    by (rule anchor_loop_listens)
  have "anchor_serial (anchor_respond st3 inp)
           = anchor_serial st1
             @ ''[ANCHOR '' @ dec (unat (anchor_id st)) @ ''] Missed delayed TX window (slot=''
             @ dec (unat (slot_delay_us (anchor_id st))) @ '' us)'' @ CRLF
       \<and> tx_confirmed (anchor_respond st3 inp) = tx_confirmed st
       \<and> anchor_frame_seq_nb (anchor_respond st3 inp) = anchor_frame_seq_nb st
       \<and> (\<exists>t m. radio_calls (anchor_respond st3 inp)
              = radio_calls st @ [Rxenable, Setdelayedtrxtime t, Writetxdata m, Starttx_delayed])"
    using anchor_respond_missed [OF assms(4), of st3] by (simp add: s3)
  then show ?thesis
    using nr nx unfolding l st1_def by simp
qed

theorem missed_slot_witness:
  "anchor_serial (anchor_loop toInt_0 (anchor_setup toInt_0 (anchor_power_up 1) None)
       (anchor_heard_late poll_seq5))
     = ''[ANCHOR] Using ID=1 (valid 1..20). Type 'SETID <n>' to change (auto-reboot).'' @ CRLF
       @ ''[ANCHOR 1] Missed delayed TX window (slot=600 us)'' @ CRLF
   \<and> tx_confirmed (anchor_loop toInt_0 (anchor_setup toInt_0 (anchor_power_up 1) None)
       (anchor_heard_late poll_seq5)) = []
   \<and> anchor_frame_seq_nb (anchor_loop toInt_0 (anchor_setup toInt_0 (anchor_power_up 1) None)
       (anchor_heard_late poll_seq5)) = 0"
proof -
  have l1: "load_id_or_fallback 1 = 1"
    by (simp add: load_id_or_fallback_def ID_MIN_def ID_MAX_def)
  have su: "anchor_setup toInt_0 (anchor_power_up 1) None
      = (anchor_power_up 1)\<lparr>anchor_id := 1,
          anchor_serial := ''[ANCHOR] Using ID=1 (valid 1..20). Type 'SETID <n>' to change (auto-reboot).'' @ CRLF\<rparr>"
    unfolding anchor_setup_plain l1 by (simp add: dec_1)
  let ?st = "anchor_setup toInt_0 (anchor_power_up 1) None"
  have r8: "replicate 8 (0 :: u8) = [0, 0, 0, 0, 0, 0, 0, 0]"
    by (simp add: numeral_eq_Suc)
  have a: "\<not> restarted (handle_serial_setid toInt_0 ?st (serial_line (anchor_heard_late poll_seq5)))"
    unfolding su by (simp add: anchor_heard_late_def handle_serial_setid_def anchor_power_up_def)
  have b: "rx_good (anchor_heard_late poll_seq5)"
    by (simp add: anchor_heard_late_def)
  have c: "snd (anchor_classify (anchor_rx_buffer ?st) (rx_frame (anchor_heard_late poll_seq5)))"
    unfolding su
    by (simp add: anchor_heard_late_def anchor_power_up_def anchor_classify_def poll_seq5_def
        dwt_readrxdata_def memcmp_eq_def rx_poll_msg_def ALL_MSG_COMMON_LEN_def
        ALL_MSG_SN_IDX_def Let_def r8)
  have d: "\<not> starttx_success (anchor_heard_late poll_seq5)"
    by (simp add: anchor_heard_late_def)
  have e: "slot_delay_us 1 = 600"
    by (simp add: slot_delay_us_def BASE_REPLY_DLY_US_def)
  show ?thesis
    using missed_slot [OF a b c d] unfolding su
    by (simp add: anchor_heard_late_def handle_serial_setid_def anchor_power_up_def e
        dec_1 dec_600)
qed

section \<open>Tag reports: proofs\<close>

lemma dec_nonempty: "dec n \<noteq> []"
  by (subst dec.simps) simp

lemma digit_char_nonzero:
  assumes "0 < d" and "d < 10"
  shows "digit_char d \<noteq> CHR ''0''"
proof -
  from assms have "d \<in> {1, 2, 3, 4, 5, 6, 7, 8, 9}" by auto
  then show ?thesis by (auto simp: digit_char_def)
qed

text \<open>The rendering of a positive number does not start with a zero.\<close>

lemma dec_no_leading_zero: "0 < n \<Longrightarrow> hd (dec n) \<noteq> CHR ''0''"
proof (induction n rule: dec.induct)
  case (1 n)
  show ?case
  proof (cases "n < 10")
    case True
    with 1(2) show ?thesis by (subst dec.simps) (simp add: digit_char_nonzero)
  next
    case False
    then have "0 < n div 10" by simp
    with 1(1) False have "hd (dec (n div 10)) \<noteq> CHR ''0''" by simp
    with False show ?thesis by (subst dec.simps) (simp add: dec_nonempty)
  qed
qed

lemma dec_digits: "set (dec n) \<subseteq> set ''0123456789''"
proof (induction n rule: dec.induct)
  case (1 n)
  have d: "digit_char k \<in> set ''0123456789''" if "k < 10" for k
  proof -
    from that have "k \<in> {0, 1, 2, 3, 4, 5, 6, 7, 8, 9}" by auto
    then show ?thesis by (auto simp: digit_char_def)
  qed
  show ?case
  proof (cases "n < 10")
    case True
    then show ?thesis using d [of n] by (subst dec.simps) simp
  next
    case False
    then show ?thesis using 1 d [of "n mod 10"] by (subst dec.simps) simp
  qed
qed

lemma dec_no_line_break: "CHR 0x0D \<notin> set (dec n) \<and> CHR 0x0A \<notin> set (dec n)"
  using dec_digits [of n] by auto

lemma is_digit_no_line_break: "is_digit c \<Longrightarrow> c \<noteq> CHR 0x0D \<and> c \<noteq> CHR 0x0A"
  by (auto simp: is_digit_def)

lemma digit_char_digit:
  assumes "k < 10"
  shows "is_digit (digit_char k)"
proof -
  from assms have "k \<in> {0, 1, 2, 3, 4, 5, 6, 7, 8, 9}" by auto
  then show ?thesis by (auto simp: digit_char_def is_digit_def)
qed

text \<open>One decimal: the digit is below 10 and what remains is again in \<open>[0, 1)\<close>.\<close>

lemma frac_step:
  assumes "0 \<le> r" and "r < 1"
  shows "nat \<lfloor>r * 10\<rfloor> < 10" and "0 \<le> r * 10 - real (nat \<lfloor>r * 10\<rfloor>)"
    and "r * 10 - real (nat \<lfloor>r * 10\<rfloor>) < 1"
proof -
  have f: "0 \<le> \<lfloor>r * 10\<rfloor>" "\<lfloor>r * 10\<rfloor> < 10"
    using assms by linarith+
  show "nat \<lfloor>r * 10\<rfloor> < 10" using f by linarith
  have e: "real (nat \<lfloor>r * 10\<rfloor>) = of_int \<lfloor>r * 10\<rfloor>" using f by simp
  show "0 \<le> r * 10 - real (nat \<lfloor>r * 10\<rfloor>)" unfolding e by linarith
  show "r * 10 - real (nat \<lfloor>r * 10\<rfloor>) < 1" unfolding e by linarith
qed

lemma frac_digits_2:
  assumes "0 \<le> r" and "r < 1"
  shows "\<exists>f1 f2. frac_digits r 2 = [f1, f2] \<and> is_digit f1 \<and> is_digit f2"
proof -
  define t1 where "t1 = nat \<lfloor>r * 10\<rfloor>"
  define r1 where "r1 = r * 10 - real t1"
  define t2 where "t2 = nat \<lfloor>r1 * 10\<rfloor>"
  have s1: "t1 < 10" "0 \<le> r1" "r1 < 1"
    using frac_step [OF assms] by (simp_all add: t1_def r1_def)
  have s2: "t2 < 10"
    using frac_step(1) [OF s1(2,3)] by (simp add: t2_def)
  have "frac_digits r 2 = dec t1 @ dec t2"
    by (simp add: numeral_2_eq_2 Let_def t1_def r1_def t2_def)
  also have "\<dots> = [digit_char t1, digit_char t2]"
    using s1(1) s2 by (simp add: dec.simps)
  finally show ?thesis
    using digit_char_digit [OF s1(1)] digit_char_digit [OF s2] by blast
qed

text \<open>
  With two decimals the rendering is an optional minus sign, a whole part in decimal,
  a point and exactly two digits.
\<close>

lemma print_double_2:
  "\<exists>sgn k f1 f2. print_double d 2 = sgn @ dec k @ ''.'' @ [f1, f2]
     \<and> (sgn = [] \<or> sgn = ''-'') \<and> is_digit f1 \<and> is_digit f2"
proof -
  define a where "a = \<bar>d\<bar> + (1 / 2) / 10 ^ 2"
  have a0: "0 \<le> a" by (simp add: a_def)
  then have f: "0 \<le> \<lfloor>a\<rfloor>" by simp
  have e: "real (nat \<lfloor>a\<rfloor>) = of_int \<lfloor>a\<rfloor>" using f by simp
  have r: "0 \<le> a - real (nat \<lfloor>a\<rfloor>)" "a - real (nat \<lfloor>a\<rfloor>) < 1"
    unfolding e by linarith+
  obtain f1 f2 where fd: "frac_digits (a - real (nat \<lfloor>a\<rfloor>)) 2 = [f1, f2]"
      "is_digit f1" "is_digit f2"
    using frac_digits_2 [OF r] by blast
  have "print_double d 2 = (if d < 0 then ''-'' else []) @ dec (nat \<lfloor>a\<rfloor>)
      @ (if (2 :: nat) > 0 then ''.'' else []) @ frac_digits (a - real (nat \<lfloor>a\<rfloor>)) 2"
    by (simp only: print_double_def Let_def a_def)
  then have "print_double d 2
      = (if d < 0 then ''-'' else []) @ dec (nat \<lfloor>a\<rfloor>) @ ''.'' @ [f1, f2]"
    by (simp add: fd(1))
  then show ?thesis using fd(2,3) by (cases "d < 0") fastforce+
qed

lemma tag_classify_length:
  assumes "length rxb = 32"
  shows "length (fst (tag_classify rxb frm)) = 32"
  using assms by (simp add: tag_classify_def Let_def dwt_readrxdata_def)

lemma tag_report_in_range:
  assumes "unat ident < MAX_ANCHORS" and "length (distances_m st) = MAX_ANCHORS"
    and "length (last_seen_ms st) = MAX_ANCHORS"
  shows "tag_report r st ident now =
      Some (st\<lparr>distances_m := (distances_m st)[unat ident := distance st],
              last_seen_ms := (last_seen_ms st)[unat ident := now],
              tag_serial := tag_serial st @ ''[TAG] A'' @ dec (unat ident) @ '' = ''
                            @ print_double (distance st) 2 @ '' m'' @ CRLF\<rparr>)"
  using assms by (simp add: tag_report_def array_store_def)

lemma tag_report_fallback:
  assumes "\<not> unat ident < MAX_ANCHORS"
  shows "tag_report r st ident now =
      Some (st\<lparr>run_info := run_info st
                @ [take 31 (''DIST: '' @ format_3_2f r (distance st) @ '' m'')]\<rparr>)"
  using assms by (simp add: tag_report_def)

lemma tag_on_frame_accepted:
  assumes "tag_classify (tag_rx_buffer st) (frame inp) = (buf, ident, True)"
  shows "tag_on_frame r st inp =
           tag_report r (st\<lparr>tag_rx_buffer := buf, tof := ss_twr_tof buf inp,
               distance := ss_twr_distance buf inp\<rparr>) ident (millis inp)"
  using assms by (simp add: tag_on_frame_def Let_def)

lemma tag_on_frame_rejected:
  assumes "tag_classify (tag_rx_buffer st) (frame inp) = (buf, ident, False)"
  shows "tag_on_frame r st inp = Some (st\<lparr>tag_rx_buffer := buf\<rparr>)"
  using assms by (simp add: tag_on_frame_def Let_def)

lemma tag_power_up_ok: "tag_arrays_ok tag_power_up"
  by (simp add: tag_arrays_ok_def tag_power_up_def)

text \<open>
  C9, as the claim states it, fails: a response whose identity byte is 200 is accepted
  and a distance is computed, but nothing is written to \<open>Serial\<close>; the distance goes to
  \<open>test_run_info\<close> as "DIST: ... m".
\<close>

theorem tag_report_line_counterexample:
  "snd (snd (tag_classify (tag_rx_buffer tag_power_up) (frame (response_input 200))))
   \<and> map_option tag_serial (tag_on_frame hash_rendering tag_power_up (response_input 200))
       = Some []
   \<and> map_option run_info (tag_on_frame hash_rendering tag_power_up (response_input 200))
       = Some [''DIST: # m'']"
proof -
  have "tag_on_frame hash_rendering tag_power_up (response_input 200)
      = Some (tag_power_up\<lparr>tag_rx_buffer := fst (tag_classify (tag_rx_buffer tag_power_up)
                 (frame (response_input 200))),
               tof := ss_twr_tof (fst (tag_classify (tag_rx_buffer tag_power_up)
                 (frame (response_input 200)))) (response_input 200),
               distance := ss_twr_distance (fst (tag_classify (tag_rx_buffer tag_power_up)
                 (frame (response_input 200)))) (response_input 200),
               run_info := [''DIST: # m'']\<rparr>)"
    unfolding tag_on_frame_accepted [OF response_input_classify] response_input_classify
    by (simp add: tag_report_fallback MAX_ANCHORS_def hash_rendering_def tag_power_up_def)
  then show ?thesis
    unfolding response_input_classify by (simp add: tag_power_up_def)
qed

text \<open>
  C9, amended.  For every accepted response whose identity byte is below
  \<open>MAX_ANCHORS = 20\<close>, the tag prints exactly one text line of the form
  "[TAG] A<anchor_id> = <distance_m> m": what it appends to \<open>Serial\<close> is that text and
  the line end, with no line break inside; the anchor id is in decimal digits without a
  leading zero; the distance is the computed distance with exactly two decimal digits
  (an optional minus sign, the whole part, a point, two digits); and the line ends with
  " m".  Nothing goes to \<open>test_run_info\<close>.  For an identity byte above 20 nothing is
  written to \<open>Serial\<close>; the text "DIST: ... m" goes to \<open>test_run_info\<close>.
\<close>

theorem tag_report_line:
  assumes "tag_arrays_ok st"
    and "tag_classify (tag_rx_buffer st) (frame inp) = (buf, ident, True)"
  shows "\<exists>st'. tag_on_frame r st inp = Some st'
     \<and> distance st' = ss_twr_distance buf inp
     \<and> (unat ident < MAX_ANCHORS \<longrightarrow>
          (\<exists>line sgn k f1 f2.
              tag_serial st' = tag_serial st @ line @ CRLF
              \<and> CHR 0x0D \<notin> set line \<and> CHR 0x0A \<notin> set line
              \<and> line = ''[TAG] A'' @ dec (unat ident) @ '' = ''
                        @ sgn @ dec k @ ''.'' @ [f1, f2] @ '' m''
              \<and> print_double (ss_twr_distance buf inp) 2 = sgn @ dec k @ ''.'' @ [f1, f2]
              \<and> (sgn = [] \<or> sgn = ''-'') \<and> is_digit f1 \<and> is_digit f2)
          \<and> run_info st' = run_info st
          \<and> set (dec (unat ident)) \<subseteq> set ''0123456789''
          \<and> (0 < unat ident \<longrightarrow> hd (dec (unat ident)) \<noteq> CHR ''0''))
     \<and> (MAX_ANCHORS < unat ident \<longrightarrow>
          tag_serial st' = tag_serial st
          \<and> run_info st' = run_info st
              @ [take 31 (''DIST: '' @ format_3_2f r (ss_twr_distance buf inp) @ '' m'')])"
proof -
  have la: "length (distances_m st) = MAX_ANCHORS" "length (last_seen_ms st) = MAX_ANCHORS"
    using assms(1) by (simp_all add: tag_arrays_ok_def)
  show ?thesis
  proof (cases "unat ident < MAX_ANCHORS")
    case True
    obtain sgn k f1 f2
      where p: "print_double (ss_twr_distance buf inp) 2 = sgn @ dec k @ ''.'' @ [f1, f2]"
        and sg: "sgn = [] \<or> sgn = ''-''" and d1: "is_digit f1" and d2: "is_digit f2"
      using print_double_2 [of "ss_twr_distance buf inp"] by blast
    define line where "line = ''[TAG] A'' @ dec (unat ident) @ '' = ''
                        @ sgn @ dec k @ ''.'' @ [f1, f2] @ '' m''"
    have nb: "CHR 0x0D \<notin> set line \<and> CHR 0x0A \<notin> set line"
      using sg dec_no_line_break [of "unat ident"] dec_no_line_break [of k]
        is_digit_no_line_break [OF d1] is_digit_no_line_break [OF d2]
      by (auto simp add: line_def)
    define st' where "st' = st\<lparr>tag_rx_buffer := buf, tof := ss_twr_tof buf inp,
        distance := ss_twr_distance buf inp,
        distances_m := (distances_m st)[unat ident := ss_twr_distance buf inp],
        last_seen_ms := (last_seen_ms st)[unat ident := millis inp],
        tag_serial := tag_serial st @ line @ CRLF\<rparr>"
    have o: "tag_on_frame r st inp = Some st'"
      unfolding tag_on_frame_accepted [OF assms(2)]
      using la True by (simp add: tag_report_in_range st'_def line_def p)
    have q: "tag_serial st' = tag_serial st @ line @ CRLF" "run_info st' = run_info st"
        "distance st' = ss_twr_distance buf inp"
      by (simp_all add: st'_def)
    have "\<exists>line sgn k f1 f2.
              tag_serial st' = tag_serial st @ line @ CRLF
              \<and> CHR 0x0D \<notin> set line \<and> CHR 0x0A \<notin> set line
              \<and> line = ''[TAG] A'' @ dec (unat ident) @ '' = ''
                        @ sgn @ dec k @ ''.'' @ [f1, f2] @ '' m''
              \<and> print_double (ss_twr_distance buf inp) 2 = sgn @ dec k @ ''.'' @ [f1, f2]
              \<and> (sgn = [] \<or> sgn = ''-'') \<and> is_digit f1 \<and> is_digit f2"
      using q(1) nb p sg d1 d2 line_def by blast
    then show ?thesis
      using o q(2,3) True dec_digits [of "unat ident"] dec_no_leading_zero [of "unat ident"]
      by auto
  next
    case False
    then show ?thesis
      unfolding tag_on_frame_accepted [OF assms(2)]
      by (simp add: tag_report_fallback)
  qed
qed

theorem tag_report_line_witness:
  "tag_arrays_ok tag_power_up
   \<and> snd (snd (tag_classify (tag_rx_buffer tag_power_up) (frame (response_input 3))))
   \<and> (\<exists>st'. tag_on_frame hash_rendering tag_power_up (response_input 3) = Some st'
         \<and> tag_serial st' = ''[TAG] A3 = 2.35 m'' @ CRLF \<and> run_info st' = [])"
proof -
  have d3: "dec 3 = ''3''"
    by (simp add: dec.simps digit_char_def)
  have v: "ss_twr_distance [0x41, 0x88, 0, 0xCA, 0xDE, 0x56, 0x45, 0x57, 0x41, 0xE1,
         0x4C, 0x04, 0, 0, 0x3C, 0x05, 0, 0, 0, 0,
         0, 0, 0, 0, 0, 0, 0, 0, 0, 0, 0, 0] (response_input 3)
       = (1240 - 240) / 2 * DWT_TIME_UNITS * SPEED_OF_LIGHT"
    unfolding ss_twr_distance_def scenario_tof
    by (simp add: round_trip_def tof_of_def clockOffsetRatio_def distance_of_def)
  have pd: "print_double ((1240 - 240) / 2 * DWT_TIME_UNITS * SPEED_OF_LIGHT) 2 = ''2.35''"
    by (simp add: print_double_def Let_def DWT_TIME_UNITS_def SPEED_OF_LIGHT_def
        numeral_2_eq_2 dec.simps digit_char_def)
  have "\<exists>st'. tag_on_frame hash_rendering tag_power_up (response_input 3) = Some st'
         \<and> tag_serial st' = ''[TAG] A3 = 2.35 m'' @ CRLF \<and> run_info st' = []"
    using tag_report_line [OF tag_power_up_ok response_input_classify,
        where r = hash_rendering and ident = 3]
    unfolding v pd
    by (auto simp add: MAX_ANCHORS_def tag_power_up_def d3)
  then show ?thesis
    using tag_power_up_ok unfolding response_input_classify by simp
qed

text \<open>
  C10.  The per-anchor tables are guarded: with the arrays at their declared sizes,
  handling any received frame stores nothing outside an array (the result is not
  \<open>None\<close>) and leaves the sizes as they are.  For an accepted response with identity
  byte below \<open>MAX_ANCHORS = 20\<close>, \<open>distances_m\<close> and \<open>last_seen_ms\<close> change at that index
  only, to the computed distance and to \<open>millis()\<close>.  For an accepted response with
  identity byte 20 or more both arrays stay as they are, nothing is written to
  \<open>Serial\<close>, and "DIST: <distance> m" goes to \<open>test_run_info\<close>.  A frame that is not
  accepted changes neither array.
\<close>

theorem per_anchor_tables_guarded:
  assumes "tag_arrays_ok st"
  shows "\<exists>st'. tag_on_frame r st inp = Some st' \<and> tag_arrays_ok st'
     \<and> (case tag_classify (tag_rx_buffer st) (frame inp) of
          (buf, ident, header_ok) \<Rightarrow>
            (header_ok \<and> unat ident < MAX_ANCHORS \<longrightarrow>
               distances_m st' = (distances_m st)[unat ident := ss_twr_distance buf inp]
               \<and> last_seen_ms st' = (last_seen_ms st)[unat ident := millis inp]
               \<and> run_info st' = run_info st)
          \<and> (header_ok \<and> \<not> unat ident < MAX_ANCHORS \<longrightarrow>
               distances_m st' = distances_m st \<and> last_seen_ms st' = last_seen_ms st
               \<and> run_info st' = run_info st
                   @ [take 31 (''DIST: '' @ format_3_2f r (ss_twr_distance buf inp) @ '' m'')]
               \<and> tag_serial st' = tag_serial st)
          \<and> (\<not> header_ok \<longrightarrow>
               distances_m st' = distances_m st \<and> last_seen_ms st' = last_seen_ms st))"
proof -
  obtain buf ident header_ok
    where c: "tag_classify (tag_rx_buffer st) (frame inp) = (buf, ident, header_ok)"
    by (cases "tag_classify (tag_rx_buffer st) (frame inp)") auto
  have lb: "length buf = 32"
    using tag_classify_length [of "tag_rx_buffer st" "frame inp"] assms c
    by (simp add: tag_arrays_ok_def)
  have la: "length (distances_m st) = MAX_ANCHORS" "length (last_seen_ms st) = MAX_ANCHORS"
    using assms by (simp_all add: tag_arrays_ok_def)
  show ?thesis
  proof (cases header_ok)
    case False
    then show ?thesis
      using c lb la tag_on_frame_rejected [of st inp buf ident r]
      by (simp add: tag_arrays_ok_def)
  next
    case True
    note ok = this
    show ?thesis
    proof (cases "unat ident < MAX_ANCHORS")
      case True
      then show ?thesis
        using c ok lb la tag_on_frame_accepted [of st inp buf ident r]
        by (simp add: tag_report_in_range tag_arrays_ok_def)
    next
      case False
      then show ?thesis
        using c ok lb la tag_on_frame_accepted [of st inp buf ident r]
        by (simp add: tag_report_fallback tag_arrays_ok_def)
    qed
  qed
qed

theorem per_anchor_tables_guarded_witness:
  "tag_arrays_ok tag_power_up
   \<and> (\<exists>st'. tag_on_frame hash_rendering tag_power_up (response_input 20) = Some st'
         \<and> distances_m st' = distances_m tag_power_up
         \<and> last_seen_ms st' = last_seen_ms tag_power_up
         \<and> run_info st' = [''DIST: # m''])
   \<and> (\<exists>st'. tag_on_frame hash_rendering tag_power_up (response_input 19) = Some st'
         \<and> last_seen_ms st' = (replicate 20 0)[19 := 5000])"
proof -
  have a: "\<exists>st'. tag_on_frame hash_rendering tag_power_up (response_input 20) = Some st'
         \<and> distances_m st' = distances_m tag_power_up
         \<and> last_seen_ms st' = last_seen_ms tag_power_up
         \<and> run_info st' = [''DIST: # m'']"
    using per_anchor_tables_guarded [OF tag_power_up_ok, of hash_rendering "response_input 20"]
    unfolding response_input_classify
    by (auto simp add: MAX_ANCHORS_def hash_rendering_def tag_power_up_def)
  have b: "\<exists>st'. tag_on_frame hash_rendering tag_power_up (response_input 19) = Some st'
         \<and> last_seen_ms st' = (replicate 20 0)[19 := 5000]"
    using per_anchor_tables_guarded [OF tag_power_up_ok, of hash_rendering "response_input 19"]
    unfolding response_input_classify
    by (auto simp add: MAX_ANCHORS_def response_input_def tag_power_up_def)
  show ?thesis using a b tag_power_up_ok by simp
qed

end
